theory Spec2Isabelle
  imports Complex_Main
begin

section \<open>Data model\<close>

text \<open>
  The combat engine of Type Strike (\<^verbatim>\<open>GameEngine\<close>, \<^verbatim>\<open>BotAI\<close> and the \<^verbatim>\<open>TOOLS\<close>
  catalog). JavaScript numbers are modelled as exact rationals: the engine only adds,
  subtracts, compares and takes minima and maxima of them, and divides a difference of
  timestamps by 1000. Strings are ASCII texts. \<^verbatim>\<open>Date.now()\<close> and \<^verbatim>\<open>Math.random()\<close>
  are inputs of the operations that read them, one argument for each read. The objects
  \<^verbatim>\<open>TOOLS\<close> and \<^verbatim>\<open>cooldowns\<close> are maps of their own properties; a read by key also sees
  the properties inherited from \<^verbatim>\<open>Object.prototype\<close>.
\<close>

text \<open>
  An effect of a tool is a JavaScript object with a \<^verbatim>\<open>type\<close> tag. One constructor per
  tag that \<^verbatim>\<open>applyEffect\<close> dispatches on, carrying the fields the catalog stores for it:
  \<^verbatim>\<open>{type:"damage", value}\<close>, \<^verbatim>\<open>{type:"heal", value}\<close>,
  \<^verbatim>\<open>{type:"shield", value, duration}\<close>, \<^verbatim>\<open>{type:"dodge", duration}\<close>,
  \<^verbatim>\<open>{type:"slow", duration, value}\<close>; any other tag is \<open>Other\<close>.
\<close>

datatype effect =
    Damage rat
  | Heal rat
  | Shield rat rat
  | Dodge rat
  | Slow rat rat
  | Other string

record tool =
  name :: string
  aliases :: "string list"
  ttype :: string
  manaCost :: rat
  cooldown :: rat
  effects :: "effect list"
  description :: string

text \<open>The entries of the catalog, then the catalog in the order of its keys in the source.\<close>

definition iceball_tool :: tool where
  "iceball_tool =
     \<lparr>name = ''Ice Ball'', aliases = [''ice ball'', ''iceball'', ''ice''],
      ttype = ''attack'', manaCost = 20, cooldown = 2,
      effects = [Damage 25, Slow 1 (1 / 2)],
      description = ''Launch a freezing projectile''\<rparr>"

definition fireball_tool :: tool where
  "fireball_tool =
     \<lparr>name = ''Fireball'', aliases = [''fireball'', ''fire ball'', ''fire''],
      ttype = ''attack'', manaCost = 30, cooldown = 3,
      effects = [Damage 40],
      description = ''Cast a powerful fire blast''\<rparr>"

definition shield_tool :: tool where
  "shield_tool =
     \<lparr>name = ''Shield'', aliases = [''shield'', ''defend'', ''block''],
      ttype = ''defense'', manaCost = 15, cooldown = 4,
      effects = [Shield 30 2],
      description = ''Create a protective barrier''\<rparr>"

definition heal_tool :: tool where
  "heal_tool =
     \<lparr>name = ''Heal'', aliases = [''heal'', ''restore'', ''mend''],
      ttype = ''utility'', manaCost = 25, cooldown = 5,
      effects = [Heal 35],
      description = ''Restore health''\<rparr>"

definition lightning_tool :: tool where
  "lightning_tool =
     \<lparr>name = ''Lightning'', aliases = [''lightning'', ''bolt'', ''shock''],
      ttype = ''attack'', manaCost = 35, cooldown = 4,
      effects = [Damage 50],
      description = ''Strike with lightning''\<rparr>"

definition strike_tool :: tool where
  "strike_tool =
     \<lparr>name = ''Strike'', aliases = [''strike'', ''hit'', ''attack''],
      ttype = ''attack'', manaCost = 10, cooldown = 1,
      effects = [Damage 15],
      description = ''Quick melee attack''\<rparr>"

definition dodge_tool :: tool where
  "dodge_tool =
     \<lparr>name = ''Dodge'', aliases = [''dodge'', ''evade'', ''avoid'', ''jump''],
      ttype = ''defense'', manaCost = 10, cooldown = 2,
      effects = [Dodge 1],
      description = ''Jump to evade the next attack''\<rparr>"

definition TOOLS :: "(string \<times> tool) list" where
  "TOOLS =
     [(''iceball'', iceball_tool),
      (''fireball'', fireball_tool),
      (''shield'', shield_tool),
      (''heal'', heal_tool),
      (''lightning'', lightning_tool),
      (''strike'', strike_tool),
      (''dodge'', dodge_tool)]"

text \<open>
  An entity. \<^verbatim>\<open>cooldowns\<close> is an object used as a dictionary from tool keys to numbers;
  \<^verbatim>\<open>lastCooldownUpdate\<close> does not exist until the first real-time tick writes it.
\<close>

record entity =
  hp :: rat
  maxHp :: rat
  mana :: rat
  maxMana :: rat
  shield :: rat
  cooldowns :: "string \<rightharpoonup> rat"
  statusEffects :: "string list"
  isDodging :: bool
  lastManaRegen :: rat
  lastCooldownUpdate :: "rat option"

text \<open>The two sides; the source writes them as the strings "player" and "bot".\<close>

datatype side = Player | Bot

text \<open>
  The record that \<^verbatim>\<open>applyEffect\<close> returns; a field the source leaves out of the object
  literal is \<open>None\<close>.
\<close>

record effect_result =
  rtype :: string
  rvalue :: "rat option"
  absorbed :: "rat option"
  final :: "rat option"
  dodged :: "bool option"
  rduration :: "rat option"

text \<open>
  The record stored in \<^verbatim>\<open>lastAction\<close>; \<open>tool_name\<close> is its field \<^verbatim>\<open>tool\<close>, the display
  name of the tool.
\<close>

record action =
  caster :: side
  tool_name :: string
  toolKey :: string
  results :: "effect_result list"
  timestamp :: rat

record match_state =
  player :: entity
  bot_entity :: entity
  turn :: side
  turnCount :: nat
  gameOver :: bool
  winner :: "side option"
  lastAction :: "action option"

record settings =
  dodgingEnabled :: bool
  combatMode :: string

definition isRealTime :: "settings \<Rightarrow> bool" where
  "isRealTime cfg = (combatMode cfg = ''realtime'')"

text \<open>
  A message is a string literal of the source, or the template
  \<^verbatim>\<open>`Cooldown: ${cooldownRemaining}${unit}`\<close> with its number and its unit kept apart.
\<close>

datatype message = Text string | CooldownText rat string

datatype validity = Valid | Invalid message

text \<open>
  What \<^verbatim>\<open>useTool\<close> returns: \<^verbatim>\<open>{success: false, message}\<close> or
  \<^verbatim>\<open>{success: true, tool, results, message}\<close>; \<open>success\<close> and \<open>result_effects\<close> read the
  fields \<^verbatim>\<open>success\<close> and \<^verbatim>\<open>results\<close>.
\<close>

datatype action_result =
    Failure message
  | Success string "effect_result list" message

fun success :: "action_result \<Rightarrow> bool" where
  "success (Failure m) = False"
| "success (Success t rs m) = True"

fun result_effects :: "action_result \<Rightarrow> effect_result list" where
  "result_effects (Failure m) = []"
| "result_effects (Success t rs m) = rs"

section \<open>GameEngine\<close>

text \<open>
  One entity of \<^verbatim>\<open>getInitialState\<close>; the argument is the value of its \<^verbatim>\<open>Date.now()\<close>.
\<close>

definition new_entity :: "rat \<Rightarrow> entity" where
  "new_entity now =
     \<lparr>hp = 100, maxHp = 100, mana = 100, maxMana = 100, shield = 0,
      cooldowns = Map.empty, statusEffects = [], isDodging = False,
      lastManaRegen = now, lastCooldownUpdate = None\<rparr>"

definition getInitialState :: "rat \<Rightarrow> rat \<Rightarrow> match_state" where
  "getInitialState now1 now2 =
     \<lparr>player = new_entity now1, bot_entity = new_entity now2, turn = Player,
      turnCount = 0, gameOver = False, winner = None, lastAction = None\<rparr>"

text \<open>\<^verbatim>\<open>toLowerCase\<close> and \<^verbatim>\<open>trim\<close> on ASCII text.\<close>

definition lower_char :: "char \<Rightarrow> char" where
  "lower_char c =
     (if (65::nat) \<le> of_char c \<and> of_char c \<le> (90::nat)
      then char_of (of_char c + (32::nat)) else c)"

definition toLowerCase :: "string \<Rightarrow> string" where
  "toLowerCase s = map lower_char s"

definition is_space :: "char \<Rightarrow> bool" where
  "is_space c = (of_char c \<in> {9, 10, 11, 12, 13, 32 :: nat})"

definition trim :: "string \<Rightarrow> string" where
  "trim s = rev (dropWhile is_space (rev (dropWhile is_space s)))"

definition findTool :: "string \<Rightarrow> (string \<times> tool) option" where
  "findTool input =
     (let normalized = trim (toLowerCase input)
      in find (\<lambda>(key, t). list_ex (\<lambda>alias. alias = normalized) (aliases t)) TOOLS)"

text \<open>
  \<^verbatim>\<open>obj[key]\<close> on a plain object reads an own property or, failing that, a property
  inherited from \<^verbatim>\<open>Object.prototype\<close>, whose property names ECMAScript fixes. The inherited
  values are functions, and \<^verbatim>\<open>Object.prototype\<close> itself for \<^verbatim>\<open>__proto__\<close>: they are truthy,
  have no \<^verbatim>\<open>manaCost\<close>, and convert to \<^verbatim>\<open>NaN\<close> in a comparison with a number.
\<close>

definition Object_prototype_keys :: "string list" where
  "Object_prototype_keys =
     [''constructor'', ''__defineGetter__'', ''__defineSetter__'', ''hasOwnProperty'',
      ''__lookupGetter__'', ''__lookupSetter__'', ''isPrototypeOf'', ''propertyIsEnumerable'',
      ''toString'', ''valueOf'', ''__proto__'', ''toLocaleString'']"

datatype 'a js_property = Own 'a | Inherited | Undefined

definition get_property :: "(string \<rightharpoonup> 'a) \<Rightarrow> string \<Rightarrow> 'a js_property" where
  "get_property obj key =
     (case obj key of
        Some v \<Rightarrow> Own v
      | None \<Rightarrow> if key \<in> set Object_prototype_keys then Inherited else Undefined)"

text \<open>
  \<^verbatim>\<open>canUseTool\<close>. \<^verbatim>\<open>!tool\<close> holds of \<^verbatim>\<open>undefined\<close> only. \<^verbatim>\<open>entity.mana < tool.manaCost\<close> is
  false when \<^verbatim>\<open>tool\<close> is an inherited value. \<^verbatim>\<open>entity.cooldowns[toolKey] || 0\<close> is the own
  number (0 for an own 0), 0 for \<^verbatim>\<open>undefined\<close>, and the inherited value otherwise, for which
  \<^verbatim>\<open>> 0\<close> is false.
\<close>

definition canUseTool :: "settings \<Rightarrow> entity \<Rightarrow> string \<Rightarrow> validity" where
  "canUseTool cfg e k =
     (let tool = get_property (map_of TOOLS) k
      in if tool = Undefined then Invalid (Text ''Tool not found'')
         else if k = ''dodge'' \<and> \<not> dodgingEnabled cfg
         then Invalid (Text ''Dodging is disabled'')
         else if (case tool of Own t \<Rightarrow> mana e < manaCost t | Inherited \<Rightarrow> False
                  | Undefined \<Rightarrow> False)
         then Invalid (Text ''Not enough mana'')
         else
           (case get_property (cooldowns e) k of
              Own cooldownRemaining \<Rightarrow>
                if cooldownRemaining > 0
                then Invalid (CooldownText cooldownRemaining
                               (if isRealTime cfg then ''s'' else '' turns''))
                else Valid
            | Inherited \<Rightarrow> Valid
            | Undefined \<Rightarrow> Valid))"

text \<open>
  \<^verbatim>\<open>applyEffect(effect, caster, target)\<close> mutates the two entities and returns a record;
  here it returns the record, the caster and the target.
\<close>

fun applyEffect :: "effect \<Rightarrow> entity \<Rightarrow> entity \<Rightarrow> effect_result \<times> entity \<times> entity" where
  "applyEffect (Damage v) c t =
     (if isDodging t
      then (\<lparr>rtype = ''damage'', rvalue = Some 0, absorbed = None, final = None,
             dodged = Some True, rduration = None\<rparr>,
            c, t\<lparr>isDodging := False\<rparr>)
      else if shield t > 0
      then
        let a = min (shield t) v;
            damage = v - a;
            t1 = t\<lparr>shield := shield t - a\<rparr>;
            t2 = (if damage > 0 then t1\<lparr>hp := max 0 (hp t1 - damage)\<rparr> else t1)
        in (\<lparr>rtype = ''damage'', rvalue = Some v, absorbed = Some a, final = Some damage,
             dodged = None, rduration = None\<rparr>, c, t2)
      else
        (\<lparr>rtype = ''damage'', rvalue = Some v, absorbed = None, final = None,
          dodged = None, rduration = None\<rparr>,
         c, t\<lparr>hp := max 0 (hp t - v)\<rparr>))"
| "applyEffect (Heal v) c t =
     (let healed = min v (maxHp c - hp c)
      in (\<lparr>rtype = ''heal'', rvalue = Some healed, absorbed = None, final = None,
           dodged = None, rduration = None\<rparr>,
          c\<lparr>hp := min (maxHp c) (hp c + v)\<rparr>, t))"
| "applyEffect (Shield v d) c t =
     (\<lparr>rtype = ''shield'', rvalue = Some v, absorbed = None, final = None,
       dodged = None, rduration = None\<rparr>,
      c\<lparr>shield := shield c + v\<rparr>, t)"
| "applyEffect (Dodge d) c t =
     (\<lparr>rtype = ''dodge'', rvalue = None, absorbed = None, final = None,
       dodged = None, rduration = Some d\<rparr>,
      c\<lparr>isDodging := True\<rparr>, t)"
| "applyEffect (Slow d v) c t =
     (\<lparr>rtype = ''slow'', rvalue = None, absorbed = None, final = None,
       dodged = None, rduration = Some d\<rparr>, c, t)"
| "applyEffect (Other s) c t =
     (\<lparr>rtype = ''unknown'', rvalue = None, absorbed = None, final = None,
       dodged = None, rduration = None\<rparr>, c, t)"

text \<open>The loop over \<^verbatim>\<open>tool.effects\<close> in \<^verbatim>\<open>useTool\<close>, pushing each result.\<close>

fun applyEffects ::
  "effect list \<Rightarrow> entity \<Rightarrow> entity \<Rightarrow> effect_result list \<times> entity \<times> entity" where
  "applyEffects [] c t = ([], c, t)"
| "applyEffects (e # es) c t =
     (case applyEffect e c t of
        (r, c1, t1) \<Rightarrow>
          (case applyEffects es c1 t1 of (rs, c2, t2) \<Rightarrow> (r # rs, c2, t2)))"

definition checkGameOver :: "match_state \<Rightarrow> match_state" where
  "checkGameOver s =
     (if hp (player s) \<le> 0 then s\<lparr>gameOver := True, winner := Some Bot\<rparr>
      else if hp (bot_entity s) \<le> 0 then s\<lparr>gameOver := True, winner := Some Player\<rparr>
      else s)"

text \<open>The body of the loop of \<^verbatim>\<open>endTurn\<close>, for one entity.\<close>

definition upkeep :: "entity \<Rightarrow> entity" where
  "upkeep e =
     e\<lparr>cooldowns := (\<lambda>key. map_option (\<lambda>v. max 0 (v - 1)) (cooldowns e key)),
       mana := min (maxMana e) (mana e + 10),
       isDodging := False\<rparr>"

definition endTurn :: "match_state \<Rightarrow> match_state" where
  "endTurn s =
     s\<lparr>player := upkeep (player s),
       bot_entity := upkeep (bot_entity s),
       turn := (if turn s = Player then Bot else Player),
       turnCount := turnCount s + 1\<rparr>"

text \<open>
  The body of the loop of \<^verbatim>\<open>updateRealTime\<close>, for one entity.
  \<^verbatim>\<open>entity.lastCooldownUpdate || now\<close> is \<open>now\<close> when the field is missing or zero.
\<close>

definition tick_entity :: "rat \<Rightarrow> entity \<Rightarrow> entity" where
  "tick_entity now e =
     (let e1 = (if now - lastManaRegen e \<ge> 1000
                then e\<lparr>mana := min (maxMana e) (mana e + 10), lastManaRegen := now\<rparr>
                else e);
          last = (case lastCooldownUpdate e1 of
                    None \<Rightarrow> now
                  | Some u \<Rightarrow> if u = 0 then now else u);
          timePassed = (now - last) / 1000
      in e1\<lparr>cooldowns :=
               (\<lambda>key. map_option (\<lambda>v. if v > 0 then max 0 (v - timePassed) else v)
                        (cooldowns e1 key)),
            lastCooldownUpdate := Some now\<rparr>)"

definition updateRealTime :: "rat \<Rightarrow> match_state \<Rightarrow> match_state" where
  "updateRealTime now s =
     s\<lparr>player := tick_entity now (player s),
       bot_entity := tick_entity now (bot_entity s)\<rparr>"

definition reset :: "rat \<Rightarrow> rat \<Rightarrow> match_state \<Rightarrow> match_state" where
  "reset now1 now2 s = getInitialState now1 now2"

definition useTool ::
  "settings \<Rightarrow> rat \<Rightarrow> string \<Rightarrow> bool \<Rightarrow> match_state \<Rightarrow> action_result \<times> match_state" where
  "useTool cfg now toolInput isPlayer s =
     (if gameOver s then (Failure (Text ''Game is over''), s)
      else if \<not> isRealTime cfg \<and> turn s \<noteq> (if isPlayer then Player else Bot)
      then (Failure (Text ''Not your turn''), s)
      else
        case findTool toolInput of
          None \<Rightarrow> (Failure (Text ''Unknown tool''), s)
        | Some (key, t) \<Rightarrow>
            (let c = (if isPlayer then player s else bot_entity s);
                 tg = (if isPlayer then bot_entity s else player s)
             in (case canUseTool cfg c key of
                   Invalid reason \<Rightarrow> (Failure reason, s)
                 | Valid \<Rightarrow>
                    (let c1 = c\<lparr>mana := mana c - manaCost t\<rparr>;
                         c2 = c1\<lparr>cooldowns := (cooldowns c1)(key \<mapsto> cooldown t)\<rparr>
                     in (case applyEffects (effects t) c2 tg of
                           (rs, c3, tg3) \<Rightarrow>
                            (let s1 = (if isPlayer then s\<lparr>player := c3, bot_entity := tg3\<rparr>
                                       else s\<lparr>player := tg3, bot_entity := c3\<rparr>);
                                 s2 = s1\<lparr>lastAction :=
                                          Some \<lparr>caster = (if isPlayer then Player else Bot),
                                                tool_name = name t, toolKey = key,
                                                results = rs, timestamp = now\<rparr>\<rparr>;
                                 s3 = checkGameOver s2;
                                 s4 = (if \<not> isRealTime cfg \<and> \<not> gameOver s3
                                       then endTurn s3 else s3)
                             in (Success (name t) rs (Text (name t @ '' used!'')), s4)))))))"

text \<open>
  The public operations of the engine that change the match, and a run of them in
  sequence. \<^verbatim>\<open>Date.now()\<close> is an argument of the operations that read the clock.
\<close>

datatype engine_op =
    UseTool rat string bool
  | EndTurn
  | UpdateRealTime rat
  | Reset rat rat

fun apply_op :: "settings \<Rightarrow> engine_op \<Rightarrow> match_state \<Rightarrow> match_state" where
  "apply_op cfg (UseTool now toolInput isPlayer) s = snd (useTool cfg now toolInput isPlayer s)"
| "apply_op cfg EndTurn s = endTurn s"
| "apply_op cfg (UpdateRealTime now) s = updateRealTime now s"
| "apply_op cfg (Reset now1 now2) s = reset now1 now2 s"

fun run_ops :: "settings \<Rightarrow> engine_op list \<Rightarrow> match_state \<Rightarrow> match_state" where
  "run_ops cfg [] s = s"
| "run_ops cfg (op # ops) s = run_ops cfg ops (apply_op cfg op s)"

section \<open>BotAI\<close>

text \<open>
  \<^verbatim>\<open>a.effects.find((e) => e.type === "damage")?.value || 0\<close>: the value of the first
  damage effect of a tool, 0 when it has none.
\<close>

fun is_damage :: "effect \<Rightarrow> bool" where
  "is_damage (Damage v) = True"
| "is_damage e = False"

definition damage_of :: "tool \<Rightarrow> rat" where
  "damage_of t = (case find is_damage (effects t) of Some (Damage v) \<Rightarrow> v | _ \<Rightarrow> 0)"

text \<open>\<^verbatim>\<open>xs[i]\<close> for a number \<open>i\<close>: \<^verbatim>\<open>undefined\<close> outside the array.\<close>

definition array_get :: "'a list \<Rightarrow> int \<Rightarrow> 'a option" where
  "array_get xs i = (if 0 \<le> i \<and> i < int (length xs) then Some (xs ! nat i) else None)"

datatype js_error = TypeError

text \<open>
  \<^verbatim>\<open>makeDecision\<close>. The three calls of \<^verbatim>\<open>Math.random()\<close> are the arguments \<open>r1\<close>,
  \<open>r2\<close> and \<open>r3\<close>, in the order of the call sites. \<^verbatim>\<open>Array.prototype.sort\<close> is stable,
  as \<open>sort_key\<close> is; the comparator \<^verbatim>\<open>bDmg - aDmg\<close> orders by decreasing damage. Reading
  \<^verbatim>\<open>.name\<close> of \<^verbatim>\<open>undefined\<close> at the end throws a TypeError.
\<close>

definition makeDecision ::
  "settings \<Rightarrow> match_state \<Rightarrow> rat \<Rightarrow> rat \<Rightarrow> rat \<Rightarrow> js_error + string option" where
  "makeDecision cfg s r1 r2 r3 =
     (let b = bot_entity s;
          availableTools = filter (\<lambda>(key, t). canUseTool cfg b key = Valid) TOOLS
      in if length availableTools = 0 then Inr None
         else
           let chosen1 = (if dodgingEnabled cfg \<and> r1 > 7 / 10
                          then find (\<lambda>(key, t). key = ''dodge'') availableTools
                          else None);
               chosen2 = (if chosen1 = None \<and> hp b < 40 \<and> mana b \<ge> 25
                          then find (\<lambda>(key, t). key = ''heal'') availableTools
                          else chosen1);
               chosen3 = (if chosen2 = None \<and> shield b = 0 \<and> mana b \<ge> 15 \<and> r2 > 6 / 10
                          then find (\<lambda>(key, t). key = ''shield'') availableTools
                          else chosen2);
               attacks = filter (\<lambda>(key, t). ttype t = ''attack'') availableTools;
               chosen4 = (if chosen3 = None \<and> length attacks > 0
                          then Some (hd (sort_key (\<lambda>(key, t). - damage_of t) attacks))
                          else chosen3);
               chosen5 = (if chosen4 = None
                          then array_get availableTools
                                 \<lfloor>r3 * of_nat (length availableTools)\<rfloor>
                          else chosen4)
           in (case chosen5 of
                 None \<Rightarrow> Inl TypeError
               | Some (key, t) \<Rightarrow> Inr (Some (name t))))"

section \<open>Properties of states\<close>

text \<open>The ranges C4 is about, for one entity and for both entities of a match.\<close>

definition entity_ok :: "entity \<Rightarrow> bool" where
  "entity_ok e =
     (0 \<le> hp e \<and> hp e \<le> maxHp e \<and> 0 \<le> mana e \<and> mana e \<le> maxMana e \<and> 0 \<le> shield e \<and>
      (\<forall>key v. cooldowns e key = Some v \<longrightarrow> 0 \<le> v))"

definition state_ok :: "match_state \<Rightarrow> bool" where
  "state_ok s = (entity_ok (player s) \<and> entity_ok (bot_entity s))"

text \<open>The amounts of an effect that changes HP or shield are not negative.\<close>

fun effect_nonneg :: "effect \<Rightarrow> bool" where
  "effect_nonneg (Damage v) = (0 \<le> v)"
| "effect_nonneg (Heal v) = (0 \<le> v)"
| "effect_nonneg (Shield v d) = (0 \<le> v)"
| "effect_nonneg e = True"

fun is_dodge :: "effect \<Rightarrow> bool" where
  "is_dodge (Dodge d) = True"
| "is_dodge e = False"

text \<open>
  No dodge flag is set, and both entities have HP left unless the match is over.
\<close>

definition dodge_free :: "match_state \<Rightarrow> bool" where
  "dodge_free s =
     (\<not> isDodging (player s) \<and> \<not> isDodging (bot_entity s) \<and>
      (gameOver s \<or> (0 < hp (player s) \<and> 0 < hp (bot_entity s))))"

text \<open>
  The caster and the target of a \<^verbatim>\<open>useTool\<close> call, as the source picks them from
  \<^verbatim>\<open>isPlayer\<close>.
\<close>

definition caster_of :: "bool \<Rightarrow> match_state \<Rightarrow> entity" where
  "caster_of isPlayer s = (if isPlayer then player s else bot_entity s)"

definition target_of :: "bool \<Rightarrow> match_state \<Rightarrow> entity" where
  "target_of isPlayer s = (if isPlayer then bot_entity s else player s)"

text \<open>The record \<^verbatim>\<open>{type: "damage", value: 0, dodged: true}\<close> of a dodged hit.\<close>

definition dodged_hit :: effect_result where
  "dodged_hit =
     \<lparr>rtype = ''damage'', rvalue = Some 0, absorbed = None, final = None,
      dodged = Some True, rduration = None\<rparr>"

section \<open>Concrete matches\<close>

text \<open>
  The settings the application starts with (turn-based, dodging off), real-time settings
  with dodging on, and states that runs of the engine reach from a fresh match.
\<close>

definition turnbased_cfg :: settings where
  "turnbased_cfg = \<lparr>dodgingEnabled = False, combatMode = ''turnbased''\<rparr>"

definition realtime_cfg :: settings where
  "realtime_cfg = \<lparr>dodgingEnabled = True, combatMode = ''realtime''\<rparr>"

text \<open>Real time: the player casts lightning, fireball and strike; the bot is at 0 HP.\<close>

definition finished_match :: match_state where
  "finished_match =
     run_ops realtime_cfg
       [UseTool 0 ''lightning'' True, UseTool 0 ''fireball'' True, UseTool 0 ''strike'' True]
       (getInitialState 0 0)"

text \<open>Real time: the bot casts dodge.\<close>

definition dodging_match :: match_state where
  "dodging_match = run_ops realtime_cfg [UseTool 0 ''dodge'' False] (getInitialState 0 0)"

text \<open>Turn-based settings with dodging on.\<close>

definition turnbased_dodge_cfg :: settings where
  "turnbased_dodge_cfg = \<lparr>dodgingEnabled = True, combatMode = ''turnbased''\<rparr>"

text \<open>An entity that still has 10 shield, and one that is down to 10 HP.\<close>

definition shielded_entity :: entity where
  "shielded_entity = (new_entity 0)\<lparr>shield := 10\<rparr>"

definition weak_entity :: entity where
  "weak_entity = (new_entity 0)\<lparr>hp := 10\<rparr>"

text \<open>
  The entity \<open>e\<close> casts \<^verbatim>\<open>shield{30}\<close> and then takes \<^verbatim>\<open>damage{25}\<close> twice from its
  opponent; the result is \<open>e\<close> after the first hit and \<open>e\<close> after the second.
\<close>

definition shield_then_hits :: "entity \<Rightarrow> entity \<Rightarrow> entity \<times> entity" where
  "shield_then_hits e opp =
     (let (r1, e1, o1) = applyEffect (Shield 30 2) e opp;
          (r2, o2, e2) = applyEffect (Damage 25) o1 e1;
          (r3, o3, e3) = applyEffect (Damage 25) o2 e2
      in (e2, e3))"

section \<open>Auxiliary facts\<close>

lemma distinct_TOOLS: "distinct (map fst TOOLS)"
  by (simp add: TOOLS_def)

lemma findTool_in_TOOLS: "findTool inp = Some (k, t) \<Longrightarrow> (k, t) \<in> set TOOLS"
  unfolding findTool_def Let_def by (auto simp: find_Some_iff dest: nth_mem)

lemma findTool_map_of: "findTool inp = Some (k, t) \<Longrightarrow> map_of TOOLS k = Some t"
  using findTool_in_TOOLS [of inp k t] distinct_TOOLS by (simp add: map_of_is_SomeI)

lemma useTool_cases [case_names GameOver NotTurn Unknown Rejected Cast]:
  obtains
    "gameOver s"
    "useTool cfg now inp isP s = (Failure (Text ''Game is over''), s)"
  | "\<not> gameOver s" "\<not> isRealTime cfg" "turn s \<noteq> (if isP then Player else Bot)"
    "useTool cfg now inp isP s = (Failure (Text ''Not your turn''), s)"
  | "\<not> gameOver s" "findTool inp = None"
    "useTool cfg now inp isP s = (Failure (Text ''Unknown tool''), s)"
  | k t m where "\<not> gameOver s" "findTool inp = Some (k, t)"
    "canUseTool cfg (if isP then player s else bot_entity s) k = Invalid m"
    "useTool cfg now inp isP s = (Failure m, s)"
  | k t rs c3 tg3 where "\<not> gameOver s"
    "isRealTime cfg \<or> turn s = (if isP then Player else Bot)"
    "findTool inp = Some (k, t)"
    "canUseTool cfg (if isP then player s else bot_entity s) k = Valid"
    "applyEffects (effects t)
       ((if isP then player s else bot_entity s)
          \<lparr>mana := mana (if isP then player s else bot_entity s) - manaCost t,
           cooldowns := (cooldowns (if isP then player s else bot_entity s))(k \<mapsto> cooldown t)\<rparr>)
       (if isP then bot_entity s else player s) = (rs, c3, tg3)"
    "useTool cfg now inp isP s =
       (Success (name t) rs (Text (name t @ '' used!'')),
        (let s3 = checkGameOver
                    ((if isP then s\<lparr>player := c3, bot_entity := tg3\<rparr>
                      else s\<lparr>player := tg3, bot_entity := c3\<rparr>)
                       \<lparr>lastAction :=
                          Some \<lparr>caster = (if isP then Player else Bot), tool_name = name t,
                                toolKey = k, results = rs, timestamp = now\<rparr>\<rparr>)
         in if \<not> isRealTime cfg \<and> \<not> gameOver s3 then endTurn s3 else s3))"
proof (cases "gameOver s")
  case True
  then have "useTool cfg now inp isP s = (Failure (Text ''Game is over''), s)"
    by (simp add: useTool_def)
  with True show ?thesis using that(1) by blast
next
  case no: False
  show ?thesis
  proof (cases "\<not> isRealTime cfg \<and> turn s \<noteq> (if isP then Player else Bot)")
    case True
    then have "useTool cfg now inp isP s = (Failure (Text ''Not your turn''), s)"
      using no by (simp add: useTool_def)
    with True no show ?thesis using that(2) by blast
  next
    case ok: False
    show ?thesis
    proof (cases "findTool inp")
      case None
      then have "useTool cfg now inp isP s = (Failure (Text ''Unknown tool''), s)"
        using no ok by (simp add: useTool_def)
      with None no show ?thesis using that(3) by blast
    next
      case (Some kt)
      obtain k t where kt: "kt = (k, t)" by (cases kt)
      show ?thesis
      proof (cases "canUseTool cfg (if isP then player s else bot_entity s) k")
        case (Invalid m)
        then have "useTool cfg now inp isP s = (Failure m, s)"
          using no ok Some kt by (cases isP) (auto simp add: useTool_def)
        with Invalid no Some kt show ?thesis using that(4) [of k t m] by blast
      next
        case Valid
        obtain rs c3 tg3 where ae: "applyEffects (effects t)
           ((if isP then player s else bot_entity s)
              \<lparr>mana := mana (if isP then player s else bot_entity s) - manaCost t,
               cooldowns := (cooldowns (if isP then player s else bot_entity s))(k \<mapsto> cooldown t)\<rparr>)
           (if isP then bot_entity s else player s) = (rs, c3, tg3)"
          by (metis prod_cases3)
        have "useTool cfg now inp isP s =
         (Success (name t) rs (Text (name t @ '' used!'')),
          (let s3 = checkGameOver
                    ((if isP then s\<lparr>player := c3, bot_entity := tg3\<rparr>
                      else s\<lparr>player := tg3, bot_entity := c3\<rparr>)
                       \<lparr>lastAction :=
                          Some \<lparr>caster = (if isP then Player else Bot), tool_name = name t,
                                toolKey = k, results = rs, timestamp = now\<rparr>\<rparr>)
           in if \<not> isRealTime cfg \<and> \<not> gameOver s3 then endTurn s3 else s3))"
          using no ok Some kt Valid ae by (cases isP) (simp_all add: useTool_def Let_def)
        then show ?thesis using no ok Some kt Valid ae that(5) [of k t rs c3 tg3] by blast
      qed
    qed
  qed
qed


lemma canUseTool_catalog:
  "map_of TOOLS k = Some t \<Longrightarrow>
     canUseTool cfg e k =
       (if k = ''dodge'' \<and> \<not> dodgingEnabled cfg then Invalid (Text ''Dodging is disabled'')
        else if mana e < manaCost t then Invalid (Text ''Not enough mana'')
        else case cooldowns e k of
               Some v \<Rightarrow> if v > 0
                         then Invalid (CooldownText v (if isRealTime cfg then ''s'' else '' turns''))
                         else Valid
             | None \<Rightarrow> Valid)"
  by (simp add: canUseTool_def get_property_def Let_def split: option.splits)

lemma canUseTool_reasons:
  "canUseTool cfg e k = Invalid m \<Longrightarrow> map_of TOOLS k = Some t \<Longrightarrow>
     m = Text ''Dodging is disabled'' \<or> m = Text ''Not enough mana'' \<or>
     (\<exists>v. 0 < v \<and> m = CooldownText v (if isRealTime cfg then ''s'' else '' turns''))"
  by (auto simp: canUseTool_catalog split: if_splits option.splits)

lemma checkGameOver_fields [simp]:
  "turn (checkGameOver s) = turn s"
  "turnCount (checkGameOver s) = turnCount s"
  "player (checkGameOver s) = player s"
  "bot_entity (checkGameOver s) = bot_entity s"
  "lastAction (checkGameOver s) = lastAction s"
  by (simp_all add: checkGameOver_def)

lemma endTurn_fields [simp]:
  "turn (endTurn s) = (if turn s = Player then Bot else Player)"
  "turnCount (endTurn s) = turnCount s + 1"
  "player (endTurn s) = upkeep (player s)"
  "bot_entity (endTurn s) = upkeep (bot_entity s)"
  "gameOver (endTurn s) = gameOver s"
  "winner (endTurn s) = winner s"
  "lastAction (endTurn s) = lastAction s"
  by (simp_all add: endTurn_def)

lemma findTool_literals:
  "findTool ''fireball'' = Some (''fireball'', fireball_tool)"
  "findTool ''lightning'' = Some (''lightning'', lightning_tool)"
  "findTool ''strike'' = Some (''strike'', strike_tool)"
  "findTool ''dodge'' = Some (''dodge'', dodge_tool)"
  "findTool ''heal'' = Some (''heal'', heal_tool)"
  "findTool ''xyzzy'' = None"
  by code_simp+

lemmas eval_defs = useTool_def canUseTool_def get_property_def Object_prototype_keys_def
  TOOLS_def fireball_tool_def lightning_tool_def
  strike_tool_def dodge_tool_def heal_tool_def isRealTime_def getInitialState_def new_entity_def
  checkGameOver_def endTurn_def upkeep_def updateRealTime_def tick_entity_def Let_def
  turnbased_cfg_def realtime_cfg_def findTool_literals

lemma finished_match_facts:
  "gameOver finished_match" "winner finished_match = Some Player"
  "mana (player finished_match) = 25" "hp (bot_entity finished_match) = 0"
  "lastManaRegen (player finished_match) = 0" "maxMana (player finished_match) = 100"
  by (simp_all add: finished_match_def eval_defs)

lemma useTool_after_gameOver:
  "gameOver s \<Longrightarrow> useTool cfg now inp isP s = (Failure (Text ''Game is over''), s)"
  by (simp add: useTool_def)

lemma canUseTool_unknown_key:
  "map_of TOOLS k = None \<Longrightarrow> k \<notin> set Object_prototype_keys \<Longrightarrow>
     canUseTool cfg e k = Invalid (Text ''Tool not found'')"
  by (simp add: canUseTool_def get_property_def)

lemma dodging_match_facts:
  "isDodging (bot_entity dodging_match)" "hp (bot_entity dodging_match) = 100"
  "\<not> gameOver dodging_match"
  by (simp_all add: dodging_match_def eval_defs)

subsection \<open>The ranges are kept by every operation\<close>

lemma TOOLS_nonneg:
  "(k, t) \<in> set TOOLS \<Longrightarrow>
     0 \<le> manaCost t \<and> 0 \<le> cooldown t \<and> list_all effect_nonneg (effects t)"
  by (auto simp: TOOLS_def iceball_tool_def fireball_tool_def shield_tool_def heal_tool_def
      lightning_tool_def strike_tool_def dodge_tool_def)

lemma applyEffect_ok:
  assumes "effect_nonneg e" "entity_ok c" "entity_ok t" "applyEffect e c t = (r, c', t')"
  shows "entity_ok c' \<and> entity_ok t'"
  using assms by (cases e) (auto simp: entity_ok_def Let_def split: if_splits)

lemma applyEffects_ok:
  "list_all effect_nonneg es \<Longrightarrow> entity_ok c \<Longrightarrow> entity_ok t \<Longrightarrow>
   applyEffects es c t = (rs, c', t') \<Longrightarrow> entity_ok c' \<and> entity_ok t'"
proof (induction es arbitrary: c t rs)
  case Nil
  then show ?case by simp
next
  case (Cons e es)
  obtain r c1 t1 where s1: "applyEffect e c t = (r, c1, t1)" by (metis prod_cases3)
  obtain rs2 c2 t2 where s2: "applyEffects es c1 t1 = (rs2, c2, t2)" by (metis prod_cases3)
  from Cons.prems(4) s1 s2 have eq: "c' = c2" "t' = t2" by simp_all
  from Cons.prems s1 have "entity_ok c1 \<and> entity_ok t1"
    using applyEffect_ok [of e c t r c1 t1] by simp
  with Cons.IH [of c1 t1 rs2] Cons.prems(1) s2 eq show ?case by simp
qed

lemma canUseTool_Valid_mana:
  "canUseTool cfg e k = Valid \<Longrightarrow> map_of TOOLS k = Some t \<Longrightarrow> manaCost t \<le> mana e"
  by (auto simp: canUseTool_catalog split: if_splits)

lemma pay_ok:
  assumes "entity_ok c" "manaCost t \<le> mana c" "0 \<le> manaCost t" "0 \<le> cooldown t"
  shows "entity_ok (c\<lparr>mana := mana c - manaCost t, cooldowns := (cooldowns c)(k \<mapsto> cooldown t)\<rparr>)"
  using assms by (auto simp: entity_ok_def)

lemma upkeep_ok: "entity_ok e \<Longrightarrow> entity_ok (upkeep e)"
  by (auto simp: entity_ok_def upkeep_def)

lemma tick_entity_ok: "entity_ok e \<Longrightarrow> entity_ok (tick_entity now e)"
  by (auto simp: entity_ok_def tick_entity_def Let_def split: if_splits)

lemma new_entity_ok: "entity_ok (new_entity now)"
  by (simp add: entity_ok_def new_entity_def)

lemma getInitialState_ok: "state_ok (getInitialState now1 now2)"
  by (simp add: state_ok_def getInitialState_def new_entity_ok)

lemma endTurn_ok: "state_ok s \<Longrightarrow> state_ok (endTurn s)"
  by (simp add: state_ok_def upkeep_ok)

lemma updateRealTime_ok: "state_ok s \<Longrightarrow> state_ok (updateRealTime now s)"
  by (simp add: state_ok_def updateRealTime_def tick_entity_ok)

lemma useTool_ok:
  assumes ok: "state_ok s"
  shows "state_ok (snd (useTool cfg now inp isP s))"
proof (cases cfg now inp isP s rule: useTool_cases)
  case (Cast k t rs c3 tg3)
  let ?c = "if isP then player s else bot_entity s"
  let ?tg = "if isP then bot_entity s else player s"
  from ok have c: "entity_ok ?c" and tg: "entity_ok ?tg" by (simp_all add: state_ok_def)
  from Cast(3) have mem: "(k, t) \<in> set TOOLS" by (rule findTool_in_TOOLS)
  from Cast(3) have mo: "map_of TOOLS k = Some t" by (rule findTool_map_of)
  from Cast(4) mo have "manaCost t \<le> mana ?c" by (rule canUseTool_Valid_mana)
  with c TOOLS_nonneg [OF mem]
  have "entity_ok (?c\<lparr>mana := mana ?c - manaCost t, cooldowns := (cooldowns ?c)(k \<mapsto> cooldown t)\<rparr>)"
    by (simp add: pay_ok)
  with tg TOOLS_nonneg [OF mem] Cast(5) have "entity_ok c3 \<and> entity_ok tg3"
    using applyEffects_ok by blast
  then show ?thesis
    using Cast(6) by (simp add: Let_def state_ok_def upkeep_ok)
qed (simp_all add: ok)

lemma apply_op_ok: "state_ok s \<Longrightarrow> state_ok (apply_op cfg op s)"
  by (cases op) (simp_all add: useTool_ok endTurn_ok updateRealTime_ok reset_def getInitialState_ok)

lemma run_ops_ok: "state_ok s \<Longrightarrow> state_ok (run_ops cfg ops s)"
  by (induction ops arbitrary: s) (simp_all add: apply_op_ok)

subsection \<open>Dodge flags in turn-based mode\<close>

lemma TOOLS_dodge_only:
  "(k, t) \<in> set TOOLS \<Longrightarrow> list_ex is_dodge (effects t) \<Longrightarrow> list_all is_dodge (effects t)"
  by (auto simp: TOOLS_def iceball_tool_def fireball_tool_def shield_tool_def heal_tool_def
      lightning_tool_def strike_tool_def dodge_tool_def)

lemma applyEffect_target_not_dodging:
  "\<not> isDodging t \<Longrightarrow> applyEffect e c t = (r, c', t') \<Longrightarrow>
     \<not> isDodging t' \<and> dodged r \<noteq> Some True"
  by (cases e) (auto simp: Let_def split: if_splits)

lemma applyEffects_target_not_dodging:
  "\<not> isDodging t \<Longrightarrow> applyEffects es c t = (rs, c', t') \<Longrightarrow>
     \<not> isDodging t' \<and> (\<forall>r \<in> set rs. dodged r \<noteq> Some True)"
proof (induction es arbitrary: c t rs)
  case Nil
  then show ?case by simp
next
  case (Cons e es)
  obtain r c1 t1 where s1: "applyEffect e c t = (r, c1, t1)" by (metis prod_cases3)
  obtain rs2 c2 t2 where s2: "applyEffects es c1 t1 = (rs2, c2, t2)" by (metis prod_cases3)
  from Cons.prems(2) s1 s2 have eq: "rs = r # rs2" "c' = c2" "t' = t2" by simp_all
  from Cons.prems(1) s1 have a: "\<not> isDodging t1 \<and> dodged r \<noteq> Some True"
    by (rule applyEffect_target_not_dodging)
  with Cons.IH [where t = t1 and c = c1 and rs = rs2] s2 eq show ?case by simp
qed

lemma applyEffect_caster_dodging:
  "\<not> is_dodge e \<Longrightarrow> applyEffect e c t = (r, c', t') \<Longrightarrow> isDodging c' = isDodging c"
  by (cases e) (auto simp: Let_def split: if_splits)

lemma applyEffects_caster_dodging:
  "\<not> list_ex is_dodge es \<Longrightarrow> applyEffects es c t = (rs, c', t') \<Longrightarrow>
     isDodging c' = isDodging c"
proof (induction es arbitrary: c t rs)
  case Nil
  then show ?case by simp
next
  case (Cons e es)
  obtain r c1 t1 where s1: "applyEffect e c t = (r, c1, t1)" by (metis prod_cases3)
  obtain rs2 c2 t2 where s2: "applyEffects es c1 t1 = (rs2, c2, t2)" by (metis prod_cases3)
  from Cons.prems(2) s1 s2 have eq: "c' = c2" "t' = t2" by simp_all
  from Cons.prems(1) s1 have "isDodging c1 = isDodging c"
    using applyEffect_caster_dodging [of e c t r c1 t1] by simp
  with Cons.IH [where c = c1 and t = t1 and rs = rs2] Cons.prems(1) s2 eq show ?case by simp
qed

lemma applyEffect_dodge_hp:
  "is_dodge e \<Longrightarrow> applyEffect e c t = (r, c', t') \<Longrightarrow> hp c' = hp c \<and> hp t' = hp t"
  by (cases e) auto

lemma applyEffects_dodge_hp:
  "list_all is_dodge es \<Longrightarrow> applyEffects es c t = (rs, c', t') \<Longrightarrow>
     hp c' = hp c \<and> hp t' = hp t"
proof (induction es arbitrary: c t rs)
  case Nil
  then show ?case by simp
next
  case (Cons e es)
  obtain r c1 t1 where s1: "applyEffect e c t = (r, c1, t1)" by (metis prod_cases3)
  obtain rs2 c2 t2 where s2: "applyEffects es c1 t1 = (rs2, c2, t2)" by (metis prod_cases3)
  from Cons.prems(2) s1 s2 have eq: "c' = c2" "t' = t2" by simp_all
  from Cons.prems(1) s1 have "hp c1 = hp c \<and> hp t1 = hp t"
    using applyEffect_dodge_hp [of e c t r c1 t1] by simp
  with Cons.IH [where c = c1 and t = t1 and rs = rs2] Cons.prems(1) s2 eq show ?case by simp
qed

lemma checkGameOver_alive:
  "gameOver (checkGameOver s) \<or> (0 < hp (player s) \<and> 0 < hp (bot_entity s))"
  by (auto simp: checkGameOver_def)

lemma checkGameOver_not_over:
  "\<not> gameOver s \<Longrightarrow> 0 < hp (player s) \<Longrightarrow> 0 < hp (bot_entity s) \<Longrightarrow>
     \<not> gameOver (checkGameOver s)"
  by (auto simp: checkGameOver_def)

lemma upkeep_fields [simp]:
  "isDodging (upkeep e) = False" "hp (upkeep e) = hp e"
  by (simp_all add: upkeep_def)

lemma useTool_dodge_free:
  assumes tb: "\<not> isRealTime cfg" and inv: "dodge_free s"
  shows "dodge_free (snd (useTool cfg now inp isP s)) \<and>
         (\<forall>r \<in> set (result_effects (fst (useTool cfg now inp isP s))). dodged r \<noteq> Some True)"
proof (cases cfg now inp isP s rule: useTool_cases)
  case (Cast k t rs c3 tg3)
  let ?c = "if isP then player s else bot_entity s"
  let ?tg = "if isP then bot_entity s else player s"
  let ?c2 = "?c\<lparr>mana := mana ?c - manaCost t, cooldowns := (cooldowns ?c)(k \<mapsto> cooldown t)\<rparr>"
  let ?s2 = "(if isP then s\<lparr>player := c3, bot_entity := tg3\<rparr>
              else s\<lparr>player := tg3, bot_entity := c3\<rparr>)
               \<lparr>lastAction :=
                  Some \<lparr>caster = (if isP then Player else Bot), tool_name = name t,
                        toolKey = k, results = rs, timestamp = now\<rparr>\<rparr>"
  from inv Cast(1) have alive: "0 < hp ?c" "0 < hp ?tg"
    and nd: "\<not> isDodging ?tg" "\<not> isDodging ?c2"
    by (simp_all add: dodge_free_def)
  from Cast(3) have mem: "(k, t) \<in> set TOOLS" by (rule findTool_in_TOOLS)
  from nd(1) Cast(5) have tgt: "\<not> isDodging tg3" and res: "\<forall>r \<in> set rs. dodged r \<noteq> Some True"
    using applyEffects_target_not_dodging by blast+
  have s2: "\<not> gameOver ?s2" using Cast(1) by simp
  have pl: "{player ?s2, bot_entity ?s2} = {c3, tg3}" by auto
  have final: "dodge_free (let s3 = checkGameOver ?s2
                 in if \<not> isRealTime cfg \<and> \<not> gameOver s3 then endTurn s3 else s3)"
  proof (cases "gameOver (checkGameOver ?s2)")
    case False
    with tb checkGameOver_alive [of ?s2] show ?thesis
      by (simp add: Let_def dodge_free_def)
  next
    case True
    have "\<not> list_ex is_dodge (effects t)"
    proof
      assume "list_ex is_dodge (effects t)"
      with mem have "list_all is_dodge (effects t)" by (rule TOOLS_dodge_only)
      from this Cast(5) have "hp c3 = hp ?c2 \<and> hp tg3 = hp ?tg"
        by (rule applyEffects_dodge_hp)
      with alive have "0 < hp c3" "0 < hp tg3" by simp_all
      then have "0 < hp (player ?s2)" "0 < hp (bot_entity ?s2)" by simp_all
      with s2 have "\<not> gameOver (checkGameOver ?s2)" by (rule checkGameOver_not_over)
      with True show False by simp
    qed
    from this Cast(5) have "isDodging c3 = isDodging ?c2"
      by (rule applyEffects_caster_dodging)
    with nd(2) have "\<not> isDodging c3" by simp
    with tgt True show ?thesis by (simp add: Let_def dodge_free_def)
  qed
  with Cast(6) res show ?thesis by simp
qed (simp_all add: inv)

lemma apply_op_dodge_free:
  "\<not> isRealTime cfg \<Longrightarrow> dodge_free s \<Longrightarrow> dodge_free (apply_op cfg op s)"
proof (cases op)
  case (UseTool now inp isP)
  assume "\<not> isRealTime cfg" "dodge_free s"
  then show ?thesis using UseTool useTool_dodge_free [of cfg s now inp isP] by simp
next
  case EndTurn
  assume "dodge_free s"
  then show ?thesis using EndTurn by (simp add: dodge_free_def)
next
  case (UpdateRealTime now)
  assume "dodge_free s"
  then show ?thesis using UpdateRealTime
    by (simp add: dodge_free_def updateRealTime_def tick_entity_def Let_def)
next
  case (Reset now1 now2)
  then show ?thesis
    by (simp add: dodge_free_def reset_def getInitialState_def new_entity_def)
qed

lemma run_ops_dodge_free:
  "\<not> isRealTime cfg \<Longrightarrow> dodge_free s \<Longrightarrow> dodge_free (run_ops cfg ops s)"
  by (induction ops arbitrary: s) (simp_all add: apply_op_dodge_free)

lemma getInitialState_dodge_free: "dodge_free (getInitialState now1 now2)"
  by (simp add: dodge_free_def getInitialState_def new_entity_def)

lemma findTool_dodge_literal: "findTool ''Dodge'' = Some (''dodge'', dodge_tool)"
  by code_simp

subsection \<open>Lists\<close>

lemma find_in_set: "find p xs = None \<or> (\<exists>x \<in> set xs. find p xs = Some x)"
  by (cases "find p xs") (auto simp: find_Some_iff)

lemma hd_sort_key_in_set: "xs \<noteq> [] \<Longrightarrow> hd (sort_key f xs) \<in> set xs"
proof -
  assume "xs \<noteq> []"
  then have "sort_key f xs \<noteq> []" by (metis length_sort length_0_conv)
  then have "hd (sort_key f xs) \<in> set (sort_key f xs)" by (rule hd_in_set)
  then show ?thesis by simp
qed

lemma array_get_random:
  assumes "xs \<noteq> []" "0 \<le> r" "r < 1"
  shows "\<exists>x \<in> set xs. array_get xs \<lfloor>r * of_nat (length xs)\<rfloor> = Some x"
proof -
  let ?n = "length xs"
  from assms(1) have n: "0 < ?n" by simp
  have lo: "0 \<le> \<lfloor>r * of_nat ?n\<rfloor>" using assms(2) by simp
  have "r * of_nat ?n < of_nat ?n" using assms(3) n by simp
  then have hi: "\<lfloor>r * of_nat ?n\<rfloor> < int ?n" by (simp add: floor_less_iff)
  from lo hi have "nat \<lfloor>r * of_nat ?n\<rfloor> < ?n" by linarith
  then have "xs ! nat \<lfloor>r * of_nat ?n\<rfloor> \<in> set xs" by (rule nth_mem)
  with lo hi show ?thesis by (simp add: array_get_def)
qed

subsection \<open>The dodge flag between effects and calls\<close>

lemma applyEffect_target_flag_kept:
  "\<not> is_damage e \<Longrightarrow> isDodging (snd (snd (applyEffect e c t))) = isDodging t"
  by (cases e) (simp_all add: Let_def)

lemma applyEffect_caster_flag_stays:
  "isDodging c \<Longrightarrow> isDodging (fst (snd (applyEffect e c t)))"
  by (cases e) (simp_all add: Let_def)

lemma applyEffects_target_flag_kept:
  "\<not> list_ex is_damage es \<Longrightarrow> applyEffects es c t = (rs, c', t') \<Longrightarrow>
     isDodging t' = isDodging t"
proof (induction es arbitrary: c t rs)
  case Nil
  then show ?case by simp
next
  case (Cons e es)
  obtain r c1 t1 where s1: "applyEffect e c t = (r, c1, t1)" by (metis prod_cases3)
  obtain rs2 c2 t2 where s2: "applyEffects es c1 t1 = (rs2, c2, t2)" by (metis prod_cases3)
  from Cons.prems(2) s1 s2 have eq: "c' = c2" "t' = t2" by simp_all
  from Cons.prems(1) s1 have "isDodging t1 = isDodging t"
    using applyEffect_target_flag_kept [of e c t] by simp
  with Cons.IH [where c = c1 and t = t1 and rs = rs2] Cons.prems(1) s2 eq show ?case by simp
qed

lemma applyEffects_caster_flag_stays:
  "isDodging c \<Longrightarrow> applyEffects es c t = (rs, c', t') \<Longrightarrow> isDodging c'"
proof (induction es arbitrary: c t rs)
  case Nil
  then show ?case by simp
next
  case (Cons e es)
  obtain r c1 t1 where s1: "applyEffect e c t = (r, c1, t1)" by (metis prod_cases3)
  obtain rs2 c2 t2 where s2: "applyEffects es c1 t1 = (rs2, c2, t2)" by (metis prod_cases3)
  from Cons.prems(2) s1 s2 have eq: "c' = c2" "t' = t2" by simp_all
  from Cons.prems(1) s1 have "isDodging c1"
    using applyEffect_caster_flag_stays [of c e t] by simp
  with Cons.IH [where c = c1 and t = t1 and rs = rs2] s2 eq show ?case by simp
qed

lemma TOOLS_damage_dodged:
  "(k, tc) \<in> set TOOLS \<Longrightarrow> list_ex is_damage (effects tc) \<Longrightarrow> isDodging t \<Longrightarrow>
   applyEffects (effects tc) c t = (rs, c', t') \<Longrightarrow>
     dodged_hit \<in> set rs \<and> hp t' = hp t \<and> shield t' = shield t \<and> \<not> isDodging t'"
  by (auto simp: TOOLS_def iceball_tool_def fireball_tool_def shield_tool_def heal_tool_def
      lightning_tool_def strike_tool_def dodge_tool_def dodged_hit_def)

lemma upkeep_shield [simp]: "shield (upkeep e) = shield e"
  by (simp add: upkeep_def)

text \<open>The entities after a successful call, from those that the effects return.\<close>

lemma useTool_Cast_entities:
  assumes "useTool cfg now inp isP s =
       (Success n rs m,
        (let s3 = checkGameOver
                    ((if isP then s\<lparr>player := c3, bot_entity := tg3\<rparr>
                      else s\<lparr>player := tg3, bot_entity := c3\<rparr>)
                       \<lparr>lastAction := la\<rparr>)
         in if \<not> isRealTime cfg \<and> \<not> gameOver s3 then endTurn s3 else s3))"
  shows "target_of isP (snd (useTool cfg now inp isP s)) = tg3 \<or>
         target_of isP (snd (useTool cfg now inp isP s)) = upkeep tg3"
    and "caster_of isP (snd (useTool cfg now inp isP s)) = c3 \<or>
         caster_of isP (snd (useTool cfg now inp isP s)) = upkeep c3"
    and "isRealTime cfg \<Longrightarrow> target_of isP (snd (useTool cfg now inp isP s)) = tg3"
    and "isRealTime cfg \<Longrightarrow> caster_of isP (snd (useTool cfg now inp isP s)) = c3"
  using assms by (auto simp: Let_def target_of_def caster_of_def)

lemma dodging_match_calls:
  "\<not> success (fst (useTool realtime_cfg 0 ''xyzzy'' True dodging_match))"
  "success (fst (useTool realtime_cfg 0 ''fireball'' True dodging_match))"
  "success (fst (useTool realtime_cfg 0 ''heal'' True dodging_match))"
  "success (fst (useTool realtime_cfg 0 ''strike'' False dodging_match))"
  "isDodging (target_of True dodging_match)"
  "isDodging (caster_of False dodging_match)"
  by (simp_all add: dodging_match_def eval_defs target_of_def caster_of_def)

lemma dodge_cast_turn_based:
  "success (fst (useTool turnbased_dodge_cfg 0 ''dodge'' True (getInitialState 0 0)))"
  "\<not> gameOver (snd (useTool turnbased_dodge_cfg 0 ''dodge'' True (getInitialState 0 0)))"
  "\<not> isRealTime turnbased_dodge_cfg"
  by (simp_all add: eval_defs turnbased_dodge_cfg_def)

section \<open>After the match has ended (C1)\<close>

text \<open>
  C1: once \<open>gameOver\<close> is true no entry point of the engine is to change HP, mana or
  cooldowns, the real-time tick included. \<^verbatim>\<open>useTool\<close> returns at once when the match is over
  (\<open>useTool_after_gameOver\<close>) and skips the upkeep when its own action ends the match, but
  \<^verbatim>\<open>updateRealTime\<close> does not test \<open>gameOver\<close>: in the finished real-time match, where the
  player won with 25 mana left, a tick one second later regenerates the player's mana
  to 35.
\<close>

theorem updateRealTime_mutates_after_gameOver:
  "gameOver finished_match \<and> winner finished_match = Some Player \<and>
   mana (player finished_match) = 25 \<and>
   mana (player (updateRealTime 1000 finished_match)) = 35 \<and>
   useTool realtime_cfg 1000 ''heal'' True finished_match =
     (Failure (Text ''Game is over''), finished_match)"
  by (simp add: finished_match_facts updateRealTime_def tick_entity_def Let_def
      useTool_after_gameOver)

section \<open>A fresh match and a fireball (C2)\<close>

text \<open>
  C2, as stated, expects the player at 70 mana with a fireball cooldown of 3 after the call
  returns. In turn-based mode the end-of-turn upkeep runs inside the same call: it gives back
  10 mana and takes 1 off every cooldown.
\<close>

theorem fresh_fireball_counterexample:
  "mana (player (snd (useTool turnbased_cfg 0 ''fireball'' True (getInitialState 0 0)))) \<noteq> 70 \<and>
   cooldowns (player (snd (useTool turnbased_cfg 0 ''fireball'' True (getInitialState 0 0))))
     ''fireball'' \<noteq> Some 3"
  by (simp add: eval_defs)

text \<open>
  C2, amended: in a fresh turn-based match a player \<^verbatim>\<open>useTool\<close> call with input "fireball"
  succeeds with one damage result of value 40, and after the call the bot's HP is 60, the
  player's mana is 80, the player's cooldown for fireball is 2 and the turn holder is the bot.
\<close>

theorem fresh_fireball_turn_based:
  assumes "\<not> isRealTime cfg"
  shows "fst (useTool cfg now ''fireball'' True (getInitialState now1 now2)) =
           Success ''Fireball''
             [\<lparr>rtype = ''damage'', rvalue = Some 40, absorbed = None, final = None,
               dodged = None, rduration = None\<rparr>]
             (Text ''Fireball used!'') \<and>
         hp (bot_entity (snd (useTool cfg now ''fireball'' True (getInitialState now1 now2)))) = 60 \<and>
         mana (player (snd (useTool cfg now ''fireball'' True (getInitialState now1 now2)))) = 80 \<and>
         cooldowns (player (snd (useTool cfg now ''fireball'' True (getInitialState now1 now2))))
           ''fireball'' = Some 2 \<and>
         turn (snd (useTool cfg now ''fireball'' True (getInitialState now1 now2))) = Bot"
  using assms
  by (simp add: useTool_def canUseTool_def get_property_def Object_prototype_keys_def
      TOOLS_def fireball_tool_def getInitialState_def
      new_entity_def checkGameOver_def endTurn_def upkeep_def Let_def findTool_literals)

theorem fresh_fireball_turn_based_witness:
  "\<not> isRealTime turnbased_cfg \<and>
   success (fst (useTool turnbased_cfg 7 ''fireball'' True (getInitialState 0 0))) \<and>
   hp (bot_entity (snd (useTool turnbased_cfg 7 ''fireball'' True (getInitialState 0 0)))) = 60 \<and>
   mana (player (snd (useTool turnbased_cfg 7 ''fireball'' True (getInitialState 0 0)))) = 80"
proof -
  have tb: "\<not> isRealTime turnbased_cfg"
    by (simp add: isRealTime_def turnbased_cfg_def)
  show ?thesis
    using tb fresh_fireball_turn_based [OF tb, where now = 7 and ?now1.0 = 0 and ?now2.0 = 0]
    by simp
qed

section \<open>The dodge flag (C3)\<close>

text \<open>
  C3, as stated, has the real-time tick clear a dodge flag that no damage effect consumed.
  \<^verbatim>\<open>updateRealTime\<close> does not touch the flag: after the bot's dodge in real time, a tick one
  second later leaves it set.
\<close>

theorem tick_keeps_dodge_counterexample:
  "isDodging (bot_entity dodging_match) \<and>
   isDodging (bot_entity (updateRealTime 1000 dodging_match))"
  by (simp add: dodging_match_facts updateRealTime_def tick_entity_def Let_def)

text \<open>
  C3, amended: a damage effect applied against an entity whose dodge flag is set takes no
  HP and no shield, returns the record \<^verbatim>\<open>{type: "damage", value: 0, dodged: true}\<close> and
  clears the flag, so that a further damage effect is not dodged. Until then the flag stays:
  an effect that is not a damage effect keeps the target's flag, no effect clears the
  caster's flag, a failed \<^verbatim>\<open>useTool\<close> call changes nothing, and \<^verbatim>\<open>updateRealTime\<close> keeps both
  flags. In a successful \<^verbatim>\<open>useTool\<close> call against a dodging target, a tool with a damage effect
  gets the dodged record among its results and leaves the target's HP and shield as they
  were and its flag cleared; in real time a tool without a damage effect keeps the target's
  flag, and a set flag of the caster stays set. The end-of-turn upkeep clears the flags of
  both entities unconditionally, and so does every successful turn-based call that leaves
  the match open.
\<close>

theorem dodge_flag_lifetime:
  "(isDodging t \<longrightarrow>
      applyEffect (Damage v) c t = (dodged_hit, c, t\<lparr>isDodging := False\<rparr>) \<and>
      dodged (fst (applyEffect (Damage w) c (t\<lparr>isDodging := False\<rparr>))) = None) \<and>
   (\<not> is_damage e \<longrightarrow> isDodging (snd (snd (applyEffect e c t))) = isDodging t) \<and>
   (isDodging c \<longrightarrow> isDodging (fst (snd (applyEffect e c t)))) \<and>
   (\<not> success (fst (useTool cfg now inp isP s)) \<longrightarrow> snd (useTool cfg now inp isP s) = s) \<and>
   (findTool inp = Some (k, tc) \<and> success (fst (useTool cfg now inp isP s)) \<and>
    isDodging (target_of isP s) \<and> list_ex is_damage (effects tc) \<longrightarrow>
      dodged_hit \<in> set (result_effects (fst (useTool cfg now inp isP s))) \<and>
      hp (target_of isP (snd (useTool cfg now inp isP s))) = hp (target_of isP s) \<and>
      shield (target_of isP (snd (useTool cfg now inp isP s))) = shield (target_of isP s) \<and>
      \<not> isDodging (target_of isP (snd (useTool cfg now inp isP s)))) \<and>
   (isRealTime cfg \<and> findTool inp = Some (k, tc) \<and>
    success (fst (useTool cfg now inp isP s)) \<and> \<not> list_ex is_damage (effects tc) \<longrightarrow>
      isDodging (target_of isP (snd (useTool cfg now inp isP s))) =
        isDodging (target_of isP s)) \<and>
   (isRealTime cfg \<and> success (fst (useTool cfg now inp isP s)) \<and>
    isDodging (caster_of isP s) \<longrightarrow>
      isDodging (caster_of isP (snd (useTool cfg now inp isP s)))) \<and>
   isDodging (player (updateRealTime now s)) = isDodging (player s) \<and>
   isDodging (bot_entity (updateRealTime now s)) = isDodging (bot_entity s) \<and>
   \<not> isDodging (player (endTurn s)) \<and>
   \<not> isDodging (bot_entity (endTurn s)) \<and>
   (\<not> isRealTime cfg \<and> success (fst (useTool cfg now inp isP s)) \<and>
    \<not> gameOver (snd (useTool cfg now inp isP s)) \<longrightarrow>
      \<not> isDodging (player (snd (useTool cfg now inp isP s))) \<and>
      \<not> isDodging (bot_entity (snd (useTool cfg now inp isP s))))"
proof (intro conjI impI)
  assume "isDodging t"
  then show "applyEffect (Damage v) c t = (dodged_hit, c, t\<lparr>isDodging := False\<rparr>)"
    by (simp add: dodged_hit_def)
  show "dodged (fst (applyEffect (Damage w) c (t\<lparr>isDodging := False\<rparr>))) = None"
    by (simp add: Let_def)
next
  assume "\<not> is_damage e"
  then show "isDodging (snd (snd (applyEffect e c t))) = isDodging t"
    by (rule applyEffect_target_flag_kept)
next
  assume "isDodging c"
  then show "isDodging (fst (snd (applyEffect e c t)))"
    by (rule applyEffect_caster_flag_stays)
next
  assume "\<not> success (fst (useTool cfg now inp isP s))"
  then show "snd (useTool cfg now inp isP s) = s"
    by (cases cfg now inp isP s rule: useTool_cases) simp_all
next
  assume a: "findTool inp = Some (k, tc) \<and> success (fst (useTool cfg now inp isP s)) \<and>
    isDodging (target_of isP s) \<and> list_ex is_damage (effects tc)"
  have "dodged_hit \<in> set (result_effects (fst (useTool cfg now inp isP s))) \<and>
      hp (target_of isP (snd (useTool cfg now inp isP s))) = hp (target_of isP s) \<and>
      shield (target_of isP (snd (useTool cfg now inp isP s))) = shield (target_of isP s) \<and>
      \<not> isDodging (target_of isP (snd (useTool cfg now inp isP s)))"
  proof (cases cfg now inp isP s rule: useTool_cases)
    case (Cast k' t' rs c3 tg3)
    from Cast(3) a have kt: "k' = k" "t' = tc" by simp_all
    from a have "findTool inp = Some (k, tc)" by simp
    then have mem: "(k, tc) \<in> set TOOLS" by (rule findTool_in_TOOLS)
    from a have d: "isDodging (if isP then bot_entity s else player s)"
      by (simp add: target_of_def)
    from a have ex: "list_ex is_damage (effects tc)" by simp
    from TOOLS_damage_dodged [OF mem ex d Cast(5) [unfolded kt]]
    have r: "dodged_hit \<in> set rs" "hp tg3 = hp (target_of isP s)"
      "shield tg3 = shield (target_of isP s)" "\<not> isDodging tg3"
      by (simp_all add: target_of_def)
    from useTool_Cast_entities(1) [OF Cast(6)] r Cast(6) show ?thesis by auto
  qed (use a in simp_all)
  then show "dodged_hit \<in> set (result_effects (fst (useTool cfg now inp isP s)))"
    "hp (target_of isP (snd (useTool cfg now inp isP s))) = hp (target_of isP s)"
    "shield (target_of isP (snd (useTool cfg now inp isP s))) = shield (target_of isP s)"
    "\<not> isDodging (target_of isP (snd (useTool cfg now inp isP s)))"
    by simp_all
next
  assume a: "isRealTime cfg \<and> findTool inp = Some (k, tc) \<and>
    success (fst (useTool cfg now inp isP s)) \<and> \<not> list_ex is_damage (effects tc)"
  show "isDodging (target_of isP (snd (useTool cfg now inp isP s))) =
        isDodging (target_of isP s)"
  proof (cases cfg now inp isP s rule: useTool_cases)
    case (Cast k' t' rs c3 tg3)
    from Cast(3) a have kt: "k' = k" "t' = tc" by simp_all
    from a have nd: "\<not> list_ex is_damage (effects tc)" by simp
    from applyEffects_target_flag_kept [OF nd Cast(5) [unfolded kt]]
    have "isDodging tg3 = isDodging (target_of isP s)" by (simp add: target_of_def)
    with useTool_Cast_entities(3) [OF Cast(6)] a show ?thesis by simp
  qed (use a in simp_all)
next
  assume a: "isRealTime cfg \<and> success (fst (useTool cfg now inp isP s)) \<and>
    isDodging (caster_of isP s)"
  show "isDodging (caster_of isP (snd (useTool cfg now inp isP s)))"
  proof (cases cfg now inp isP s rule: useTool_cases)
    case (Cast k' t' rs c3 tg3)
    from a have "isDodging ((if isP then player s else bot_entity s)
          \<lparr>mana := mana (if isP then player s else bot_entity s) - manaCost t',
           cooldowns := (cooldowns (if isP then player s else bot_entity s))(k' \<mapsto> cooldown t')\<rparr>)"
      by (simp add: caster_of_def)
    from this Cast(5) have "isDodging c3" by (rule applyEffects_caster_flag_stays)
    with useTool_Cast_entities(4) [OF Cast(6)] a show ?thesis by simp
  qed (use a in simp_all)
next
  show "isDodging (player (updateRealTime now s)) = isDodging (player s)"
    "isDodging (bot_entity (updateRealTime now s)) = isDodging (bot_entity s)"
    by (simp_all add: updateRealTime_def tick_entity_def Let_def)
  show "\<not> isDodging (player (endTurn s))" "\<not> isDodging (bot_entity (endTurn s))"
    by simp_all
next
  assume a: "\<not> isRealTime cfg \<and> success (fst (useTool cfg now inp isP s)) \<and>
    \<not> gameOver (snd (useTool cfg now inp isP s))"
  then show "\<not> isDodging (player (snd (useTool cfg now inp isP s)))"
    "\<not> isDodging (bot_entity (snd (useTool cfg now inp isP s)))"
    by (cases cfg now inp isP s rule: useTool_cases; simp add: Let_def split: if_splits)+
qed

theorem dodge_flag_lifetime_witness:
  "(isDodging (bot_entity dodging_match) \<and>
    applyEffect (Damage 40) (player dodging_match) (bot_entity dodging_match) =
      (dodged_hit, player dodging_match, (bot_entity dodging_match)\<lparr>isDodging := False\<rparr>)) \<and>
   (\<not> is_damage (Heal 35) \<and>
    isDodging (snd (snd (applyEffect (Heal 35) (player dodging_match)
       (bot_entity dodging_match)))) = isDodging (bot_entity dodging_match)) \<and>
   (\<not> success (fst (useTool realtime_cfg 0 ''xyzzy'' True dodging_match)) \<and>
    snd (useTool realtime_cfg 0 ''xyzzy'' True dodging_match) = dodging_match) \<and>
   (findTool ''fireball'' = Some (''fireball'', fireball_tool) \<and>
    success (fst (useTool realtime_cfg 0 ''fireball'' True dodging_match)) \<and>
    isDodging (target_of True dodging_match) \<and> list_ex is_damage (effects fireball_tool) \<and>
    dodged_hit \<in> set (result_effects (fst (useTool realtime_cfg 0 ''fireball'' True
       dodging_match))) \<and>
    \<not> isDodging (target_of True (snd (useTool realtime_cfg 0 ''fireball'' True
       dodging_match)))) \<and>
   (isRealTime realtime_cfg \<and> findTool ''heal'' = Some (''heal'', heal_tool) \<and>
    success (fst (useTool realtime_cfg 0 ''heal'' True dodging_match)) \<and>
    \<not> list_ex is_damage (effects heal_tool) \<and>
    isDodging (target_of True (snd (useTool realtime_cfg 0 ''heal'' True dodging_match))) =
      isDodging (target_of True dodging_match)) \<and>
   (success (fst (useTool realtime_cfg 0 ''strike'' False dodging_match)) \<and>
    isDodging (caster_of False dodging_match) \<and>
    isDodging (caster_of False (snd (useTool realtime_cfg 0 ''strike'' False dodging_match)))) \<and>
   (\<not> isRealTime turnbased_dodge_cfg \<and>
    success (fst (useTool turnbased_dodge_cfg 0 ''dodge'' True (getInitialState 0 0))) \<and>
    \<not> gameOver (snd (useTool turnbased_dodge_cfg 0 ''dodge'' True (getInitialState 0 0))) \<and>
    \<not> isDodging (player (snd (useTool turnbased_dodge_cfg 0 ''dodge'' True
       (getInitialState 0 0)))))"
proof -
  have rt: "isRealTime realtime_cfg" by (simp add: isRealTime_def realtime_cfg_def)
  have fx: "list_ex is_damage (effects fireball_tool)" "\<not> list_ex is_damage (effects heal_tool)"
    "\<not> is_damage (Heal 35)"
    by (simp_all add: fireball_tool_def heal_tool_def)
  note d = dodging_match_facts(1)
  note a = dodge_flag_lifetime [where t = "bot_entity dodging_match" and v = 40
      and c = "player dodging_match" and e = "Heal 35" and cfg = realtime_cfg and now = 0
      and inp = "''xyzzy''" and isP = True and s = dodging_match]
  note b = dodge_flag_lifetime [where cfg = realtime_cfg and now = 0 and inp = "''fireball''"
      and isP = True and s = dodging_match and k = "''fireball''" and tc = fireball_tool]
  note c = dodge_flag_lifetime [where cfg = realtime_cfg and now = 0 and inp = "''heal''"
      and isP = True and s = dodging_match and k = "''heal''" and tc = heal_tool]
  note e = dodge_flag_lifetime [where cfg = realtime_cfg and now = 0 and inp = "''strike''"
      and isP = False and s = dodging_match]
  note f = dodge_flag_lifetime [where cfg = turnbased_dodge_cfg and now = 0
      and inp = "''dodge''" and isP = True and s = "getInitialState 0 0"]
  have w1: "applyEffect (Damage 40) (player dodging_match) (bot_entity dodging_match) =
      (dodged_hit, player dodging_match, (bot_entity dodging_match)\<lparr>isDodging := False\<rparr>)"
    using a d by blast
  have w2: "isDodging (snd (snd (applyEffect (Heal 35) (player dodging_match)
       (bot_entity dodging_match)))) = isDodging (bot_entity dodging_match)"
    using a fx(3) by blast
  have w3: "snd (useTool realtime_cfg 0 ''xyzzy'' True dodging_match) = dodging_match"
    using a dodging_match_calls(1) by blast
  have w4: "dodged_hit \<in> set (result_effects (fst (useTool realtime_cfg 0 ''fireball'' True
       dodging_match)))"
    "\<not> isDodging (target_of True (snd (useTool realtime_cfg 0 ''fireball'' True
       dodging_match)))"
    using b findTool_literals(1) dodging_match_calls(2,5) fx(1) by blast+
  have w5: "isDodging (target_of True (snd (useTool realtime_cfg 0 ''heal'' True dodging_match))) =
      isDodging (target_of True dodging_match)"
    using c rt findTool_literals(5) dodging_match_calls(3) fx(2) by blast
  have w6: "isDodging (caster_of False (snd (useTool realtime_cfg 0 ''strike'' False
      dodging_match)))"
    using e rt dodging_match_calls(4,6) by blast
  have w7: "\<not> isDodging (player (snd (useTool turnbased_dodge_cfg 0 ''dodge'' True
       (getInitialState 0 0))))"
    using f dodge_cast_turn_based by blast
  show ?thesis
    using d fx rt findTool_literals(1,5) dodging_match_calls dodge_cast_turn_based
      w1 w2 w3 w4 w5 w6 w7 by blast
qed

section \<open>Ranges of HP, mana, shield and cooldowns (C4)\<close>

text \<open>
  C4: after any finite sequence of engine operations (\<^verbatim>\<open>useTool\<close>, \<^verbatim>\<open>endTurn\<close>,
  \<^verbatim>\<open>updateRealTime\<close>, \<^verbatim>\<open>reset\<close>, with any arguments and in any mode) from the initial
  state, both entities have \<open>0 \<le> hp \<le> maxHp\<close>, \<open>0 \<le> mana \<le> maxMana\<close>, \<open>shield \<ge> 0\<close> and
  every cooldown value \<open>\<ge> 0\<close>.
\<close>

theorem resources_stay_in_range:
  "entity_ok (player (run_ops cfg ops (getInitialState now1 now2))) \<and>
   entity_ok (bot_entity (run_ops cfg ops (getInitialState now1 now2)))"
  using run_ops_ok [OF getInitialState_ok, where cfg = cfg and ops = ops] by (simp add: state_ok_def)

theorem resources_stay_in_range_witness:
  "cooldowns (player (run_ops turnbased_cfg [UseTool 0 ''fireball'' True] (getInitialState 0 0)))
     ''fireball'' = Some 2 \<and> (0::rat) \<le> 2 \<and>
   0 \<le> mana (player (run_ops turnbased_cfg [UseTool 0 ''fireball'' True] (getInitialState 0 0))) \<and>
   hp (bot_entity (run_ops turnbased_cfg [UseTool 0 ''fireball'' True] (getInitialState 0 0)))
     \<le> maxHp (bot_entity (run_ops turnbased_cfg [UseTool 0 ''fireball'' True] (getInitialState 0 0)))"
proof -
  have c: "cooldowns (player (run_ops turnbased_cfg [UseTool 0 ''fireball'' True]
             (getInitialState 0 0))) ''fireball'' = Some 2"
    by (simp add: eval_defs)
  from resources_stay_in_range [where cfg = turnbased_cfg
      and ops = "[UseTool 0 ''fireball'' True]" and ?now1.0 = 0 and ?now2.0 = 0]
  show ?thesis
    unfolding entity_ok_def using c by simp
qed

section \<open>Failed calls (C5)\<close>

text \<open>
  C5: a \<^verbatim>\<open>useTool\<close> call that does not succeed returns the match state it was given, and
  its result is a failure record whose reason is one of: game over, wrong turn, unknown tool,
  not enough mana, dodging disabled, cooldown active.
\<close>

theorem useTool_failure_no_mutation:
  "\<not> success (fst (useTool cfg now inp isP s)) \<Longrightarrow>
     snd (useTool cfg now inp isP s) = s \<and>
     (\<exists>m. fst (useTool cfg now inp isP s) = Failure m \<and>
          (m = Text ''Game is over'' \<or> m = Text ''Not your turn'' \<or>
           m = Text ''Unknown tool'' \<or> m = Text ''Not enough mana'' \<or>
           m = Text ''Dodging is disabled'' \<or>
           (\<exists>v. 0 < v \<and>
                m = CooldownText v (if isRealTime cfg then ''s'' else '' turns''))))"
proof (cases cfg now inp isP s rule: useTool_cases)
  case (Rejected k t m)
  from Rejected(2) have "map_of TOOLS k = Some t" by (rule findTool_map_of)
  with Rejected(3) have "m = Text ''Dodging is disabled'' \<or> m = Text ''Not enough mana'' \<or>
     (\<exists>v. 0 < v \<and> m = CooldownText v (if isRealTime cfg then ''s'' else '' turns''))"
    by (rule canUseTool_reasons)
  with Rejected(4) show ?thesis by auto
qed simp_all

theorem useTool_failure_no_mutation_witness:
  "\<not> success (fst (useTool turnbased_cfg 0 ''xyzzy'' True (getInitialState 0 0))) \<and>
   snd (useTool turnbased_cfg 0 ''xyzzy'' True (getInitialState 0 0)) = getInitialState 0 0"
  using useTool_failure_no_mutation [of turnbased_cfg 0 "''xyzzy''" True "getInitialState 0 0"]
  by (simp add: eval_defs)

section \<open>Shield before HP (C6)\<close>

text \<open>
  C6, as stated, speaks of any entity whose dodge flag is unset. The shield pool is
  additive and HP is floored at 0: an entity that already has 10 shield ends the first hit
  with 15, and an entity with 10 HP loses 10 on the second hit, not 20.
\<close>

theorem shield_scenario_counterexample:
  "\<not> isDodging shielded_entity \<and>
   shield (fst (shield_then_hits shielded_entity (new_entity 0))) \<noteq> 5 \<and>
   \<not> isDodging weak_entity \<and>
   hp (snd (shield_then_hits weak_entity (new_entity 0))) \<noteq> hp weak_entity - 20"
  by (simp add: shield_then_hits_def shielded_entity_def weak_entity_def new_entity_def)

text \<open>
  C6, amended: for an entity with dodge flag unset, shield 0 and at least 20 HP, applying
  \<^verbatim>\<open>shield{30}\<close> and then \<^verbatim>\<open>damage{25}\<close> leaves its shield at 5 and its HP unchanged, and
  \<^verbatim>\<open>damage{25}\<close> again leaves its shield at 0 and takes exactly 20 HP. In general, a damage
  effect of amount \<open>v \<ge> 0\<close> against a target that is not dodging takes
  \<open>min shield v\<close> from the shield, which stays non-negative, takes only the rest from HP
  (floored at 0), and HP drops only when the shield is used up.
\<close>

theorem shield_absorbs_before_hp:
  "(\<not> isDodging e \<and> shield e = 0 \<and> 20 \<le> hp e \<longrightarrow>
      shield (fst (shield_then_hits e opp)) = 5 \<and>
      hp (fst (shield_then_hits e opp)) = hp e \<and>
      shield (snd (shield_then_hits e opp)) = 0 \<and>
      hp (snd (shield_then_hits e opp)) = hp e - 20) \<and>
   (\<not> isDodging t \<and> 0 \<le> shield t \<and> 0 \<le> v \<and> 0 \<le> hp t \<longrightarrow>
      shield (snd (snd (applyEffect (Damage v) c t))) = shield t - min (shield t) v \<and>
      0 \<le> shield (snd (snd (applyEffect (Damage v) c t))) \<and>
      hp (snd (snd (applyEffect (Damage v) c t))) =
        max 0 (hp t - (v - min (shield t) v)) \<and>
      (hp (snd (snd (applyEffect (Damage v) c t))) < hp t \<longrightarrow>
         shield (snd (snd (applyEffect (Damage v) c t))) = 0))"
proof (intro conjI impI)
  assume a: "\<not> isDodging e \<and> shield e = 0 \<and> 20 \<le> hp e"
  then show "shield (fst (shield_then_hits e opp)) = 5"
    "hp (fst (shield_then_hits e opp)) = hp e"
    "shield (snd (shield_then_hits e opp)) = 0"
    "hp (snd (shield_then_hits e opp)) = hp e - 20"
    by (simp_all add: shield_then_hits_def)
next
  assume a: "\<not> isDodging t \<and> 0 \<le> shield t \<and> 0 \<le> v \<and> 0 \<le> hp t"
  then show "shield (snd (snd (applyEffect (Damage v) c t))) = shield t - min (shield t) v"
    by (auto simp: Let_def)
  from a show "0 \<le> shield (snd (snd (applyEffect (Damage v) c t)))"
    by (auto simp: Let_def)
  from a show "hp (snd (snd (applyEffect (Damage v) c t))) =
        max 0 (hp t - (v - min (shield t) v))"
    by (auto simp: Let_def)
  assume "hp (snd (snd (applyEffect (Damage v) c t))) < hp t"
  with a show "shield (snd (snd (applyEffect (Damage v) c t))) = 0"
    by (auto simp: Let_def split: if_splits)
qed

theorem shield_absorbs_before_hp_witness:
  "(\<not> isDodging (new_entity 0) \<and> shield (new_entity 0) = 0 \<and> 20 \<le> hp (new_entity 0) \<and>
    shield (fst (shield_then_hits (new_entity 0) (new_entity 0))) = 5 \<and>
    hp (snd (shield_then_hits (new_entity 0) (new_entity 0))) = hp (new_entity 0) - 20) \<and>
   (\<not> isDodging shielded_entity \<and> 0 \<le> shield shielded_entity \<and> (0::rat) \<le> 25 \<and>
    0 \<le> hp shielded_entity \<and>
    hp (snd (snd (applyEffect (Damage 25) (new_entity 0) shielded_entity))) < hp shielded_entity \<and>
    shield (snd (snd (applyEffect (Damage 25) (new_entity 0) shielded_entity))) = 0)"
proof -
  have h: "\<not> isDodging (new_entity 0) \<and> shield (new_entity 0) = 0 \<and> 20 \<le> hp (new_entity 0)"
    by (simp add: new_entity_def)
  have g: "\<not> isDodging shielded_entity \<and> 0 \<le> shield shielded_entity \<and> (0::rat) \<le> 25 \<and>
    0 \<le> hp shielded_entity"
    by (simp add: shielded_entity_def new_entity_def)
  have l: "hp (snd (snd (applyEffect (Damage 25) (new_entity 0) shielded_entity)))
             < hp shielded_entity"
    by (simp add: shielded_entity_def new_entity_def)
  note t1 = shield_absorbs_before_hp [where e = "new_entity 0" and opp = "new_entity 0",
      THEN conjunct1, rule_format, OF h]
  note t2 = shield_absorbs_before_hp [where t = shielded_entity and v = 25
      and c = "new_entity 0", THEN conjunct2, rule_format, OF g]
  from t2 l have t3: "shield (snd (snd (applyEffect (Damage 25) (new_entity 0) shielded_entity))) = 0"
    by blast
  show ?thesis using h g l t1 t3 by blast
qed

section \<open>Turn order (C7)\<close>

text \<open>
  C7: in turn-based mode, while the match is not over, a call by the entity that does not
  hold the turn fails with "Not your turn" and changes nothing; a successful call that does
  not end the match was made by the turn holder, passes the turn to the opponent and
  increments the turn counter by one.
\<close>

theorem turn_based_turn_order:
  assumes tb: "\<not> isRealTime cfg"
  shows "(\<not> gameOver s \<and> turn s \<noteq> (if isP then Player else Bot) \<longrightarrow>
            useTool cfg now inp isP s = (Failure (Text ''Not your turn''), s)) \<and>
         (success (fst (useTool cfg now inp isP s)) \<and>
          \<not> gameOver (snd (useTool cfg now inp isP s)) \<longrightarrow>
            turn s = (if isP then Player else Bot) \<and>
            turn (snd (useTool cfg now inp isP s)) = (if isP then Bot else Player) \<and>
            turnCount (snd (useTool cfg now inp isP s)) = turnCount s + 1)"
proof (intro conjI impI)
  assume "\<not> gameOver s \<and> turn s \<noteq> (if isP then Player else Bot)"
  with tb show "useTool cfg now inp isP s = (Failure (Text ''Not your turn''), s)"
    by (simp add: useTool_def)
next
  assume a: "success (fst (useTool cfg now inp isP s)) \<and>
             \<not> gameOver (snd (useTool cfg now inp isP s))"
  then show "turn s = (if isP then Player else Bot)"
    using tb by (cases cfg now inp isP s rule: useTool_cases) simp_all
next
  assume a: "success (fst (useTool cfg now inp isP s)) \<and>
             \<not> gameOver (snd (useTool cfg now inp isP s))"
  then show "turn (snd (useTool cfg now inp isP s)) = (if isP then Bot else Player)"
    using tb by (cases cfg now inp isP s rule: useTool_cases)
      (simp_all add: Let_def split: if_splits)
next
  assume a: "success (fst (useTool cfg now inp isP s)) \<and>
             \<not> gameOver (snd (useTool cfg now inp isP s))"
  then show "turnCount (snd (useTool cfg now inp isP s)) = turnCount s + 1"
    using tb by (cases cfg now inp isP s rule: useTool_cases)
      (simp_all add: Let_def split: if_splits)
qed

theorem turn_based_turn_order_witness:
  "\<not> isRealTime turnbased_cfg \<and>
   (\<not> gameOver (getInitialState 0 0) \<and> turn (getInitialState 0 0) \<noteq> Bot \<and>
    useTool turnbased_cfg 0 ''strike'' False (getInitialState 0 0) =
      (Failure (Text ''Not your turn''), getInitialState 0 0)) \<and>
   (success (fst (useTool turnbased_cfg 0 ''fireball'' True (getInitialState 0 0))) \<and>
    \<not> gameOver (snd (useTool turnbased_cfg 0 ''fireball'' True (getInitialState 0 0))) \<and>
    turn (snd (useTool turnbased_cfg 0 ''fireball'' True (getInitialState 0 0))) = Bot \<and>
    turnCount (snd (useTool turnbased_cfg 0 ''fireball'' True (getInitialState 0 0))) =
      turnCount (getInitialState 0 0) + 1)"
proof -
  have tb: "\<not> isRealTime turnbased_cfg"
    by (simp add: isRealTime_def turnbased_cfg_def)
  have a: "\<not> gameOver (getInitialState 0 0) \<and>
           turn (getInitialState 0 0) \<noteq> (if False then Player else Bot)"
    by (simp add: getInitialState_def)
  have b: "success (fst (useTool turnbased_cfg 0 ''fireball'' True (getInitialState 0 0))) \<and>
    \<not> gameOver (snd (useTool turnbased_cfg 0 ''fireball'' True (getInitialState 0 0)))"
    by (simp add: eval_defs)
  note t1 = turn_based_turn_order [where cfg = turnbased_cfg and s = "getInitialState 0 0"
      and isP = False and now = 0 and inp = "''strike''", OF tb, THEN conjunct1, rule_format, OF a]
  note t2 = turn_based_turn_order [where cfg = turnbased_cfg and s = "getInitialState 0 0"
      and isP = True and now = 0 and inp = "''fireball''", OF tb, THEN conjunct2, rule_format, OF b]
  from t2 have t3:
    "turn (snd (useTool turnbased_cfg 0 ''fireball'' True (getInitialState 0 0))) = Bot"
    "turnCount (snd (useTool turnbased_cfg 0 ''fireball'' True (getInitialState 0 0))) =
      turnCount (getInitialState 0 0) + 1"
    by simp_all
  from a have a': "\<not> gameOver (getInitialState 0 0)" "turn (getInitialState 0 0) \<noteq> Bot"
    by simp_all
  show ?thesis
    using tb a' t1 b t3 by blast
qed

section \<open>The checks of canUseTool (C8)\<close>

text \<open>
  C8: \<^verbatim>\<open>canUseTool\<close> is to reject first a key that is not in the catalog. Its test is
  \<^verbatim>\<open>!tool\<close> on \<^verbatim>\<open>TOOLS[toolKey]\<close>, which is also truthy for the properties that \<^verbatim>\<open>TOOLS\<close>
  inherits from \<^verbatim>\<open>Object.prototype\<close>: "constructor" is not a key of the catalog, and for
  a fresh entity the function answers valid where the first check should answer
  "Tool not found". A key that is neither in the catalog nor inherited is rejected
  (\<open>canUseTool_unknown_key\<close>), and on the keys of the catalog the later checks come in the order
  of the claim (\<open>canUseTool_catalog\<close>).
\<close>

theorem canUseTool_inherited_key_valid:
  "map_of TOOLS ''constructor'' = None \<and>
   canUseTool cfg (new_entity now) ''constructor'' = Valid"
  by (simp add: canUseTool_def get_property_def Object_prototype_keys_def TOOLS_def
      new_entity_def)

section \<open>The bot's decision (C9)\<close>

text \<open>
  C9: with the last random draw in \<open>[0, 1)\<close>, as \<^verbatim>\<open>Math.random()\<close> gives it,
  \<^verbatim>\<open>makeDecision\<close> returns \<^verbatim>\<open>null\<close> exactly when \<^verbatim>\<open>canUseTool\<close> accepts no tool of the
  catalog for the bot; when it accepts at least one, the decision is the name of a tool of
  the catalog that \<^verbatim>\<open>canUseTool\<close> accepts for the bot, whatever the draws.
\<close>

theorem makeDecision_selects_usable:
  assumes r3: "0 \<le> r3" "r3 < 1"
  shows "(makeDecision cfg s r1 r2 r3 = Inr None \<longleftrightarrow>
            (\<forall>(k, t) \<in> set TOOLS. canUseTool cfg (bot_entity s) k \<noteq> Valid)) \<and>
         ((\<exists>(k, t) \<in> set TOOLS. canUseTool cfg (bot_entity s) k = Valid) \<longrightarrow>
            (\<exists>(k, t) \<in> set TOOLS. canUseTool cfg (bot_entity s) k = Valid \<and>
                   makeDecision cfg s r1 r2 r3 = Inr (Some (name t))))"
proof -
  define b where "b = bot_entity s"
  define av where "av = filter (\<lambda>(key, t). canUseTool cfg b key = Valid) TOOLS"
  define c1 where "c1 = (if dodgingEnabled cfg \<and> r1 > 7 / 10
                          then find (\<lambda>(key, t). key = ''dodge'') av else None)"
  define c2 where "c2 = (if c1 = None \<and> hp b < 40 \<and> mana b \<ge> 25
                          then find (\<lambda>(key, t). key = ''heal'') av else c1)"
  define c3 where "c3 = (if c2 = None \<and> shield b = 0 \<and> mana b \<ge> 15 \<and> r2 > 6 / 10
                          then find (\<lambda>(key, t). key = ''shield'') av else c2)"
  define attacks where "attacks = filter (\<lambda>(key, t). ttype t = ''attack'') av"
  define c4 where "c4 = (if c3 = None \<and> length attacks > 0
                          then Some (hd (sort_key (\<lambda>(key, t). - damage_of t) attacks))
                          else c3)"
  define c5 where "c5 = (if c4 = None
                          then array_get av \<lfloor>r3 * of_nat (length av)\<rfloor> else c4)"
  have md: "makeDecision cfg s r1 r2 r3 =
      (if length av = 0 then Inr None
       else case c5 of None \<Rightarrow> Inl TypeError | Some (key, t) \<Rightarrow> Inr (Some (name t)))"
    unfolding makeDecision_def Let_def b_def av_def c1_def c2_def c3_def attacks_def c4_def c5_def
    by (rule refl)
  have av_mem: "\<And>x. x \<in> set av \<Longrightarrow>
      x \<in> set TOOLS \<and> canUseTool cfg b (fst x) = Valid"
    by (auto simp: av_def)
  have av_empty: "av = [] \<longleftrightarrow> (\<forall>(k, t) \<in> set TOOLS. canUseTool cfg b k \<noteq> Valid)"
    by (auto simp: av_def filter_empty_conv)
  have p1: "c1 = None \<or> (\<exists>x \<in> set av. c1 = Some x)"
    unfolding c1_def using find_in_set [of _ av] by simp
  have p2: "c2 = None \<or> (\<exists>x \<in> set av. c2 = Some x)"
    unfolding c2_def using p1 find_in_set [of _ av] by simp
  have p3: "c3 = None \<or> (\<exists>x \<in> set av. c3 = Some x)"
    unfolding c3_def using p2 find_in_set [of _ av] by simp
  have "attacks \<noteq> [] \<Longrightarrow> hd (sort_key (\<lambda>(key, t). - damage_of t) attacks) \<in> set av"
    using hd_sort_key_in_set [of attacks] by (auto simp: attacks_def)
  then have p4: "c4 = None \<or> (\<exists>x \<in> set av. c4 = Some x)"
    unfolding c4_def using p3 by auto
  have p5: "av \<noteq> [] \<Longrightarrow> \<exists>x \<in> set av. c5 = Some x"
    unfolding c5_def using p4 array_get_random [OF _ r3, of av] by auto
  have chosen: "av \<noteq> [] \<Longrightarrow>
      \<exists>(k, t) \<in> set TOOLS. canUseTool cfg b k = Valid \<and>
            makeDecision cfg s r1 r2 r3 = Inr (Some (name t))"
  proof -
    assume ne: "av \<noteq> []"
    then obtain x where x: "x \<in> set av" "c5 = Some x" using p5 by blast
    obtain k t where kt: "x = (k, t)" by (cases x)
    from av_mem [OF x(1)] kt have "(k, t) \<in> set TOOLS" "canUseTool cfg b k = Valid"
      by simp_all
    moreover from md ne x(2) kt have "makeDecision cfg s r1 r2 r3 = Inr (Some (name t))"
      by simp
    ultimately show ?thesis by blast
  qed
  have none: "makeDecision cfg s r1 r2 r3 = Inr None \<longleftrightarrow> av = []"
  proof
    assume "makeDecision cfg s r1 r2 r3 = Inr None"
    then show "av = []" using chosen by (cases "av = []") auto
  next
    assume "av = []"
    then show "makeDecision cfg s r1 r2 r3 = Inr None" using md by simp
  qed
  have some: "(\<exists>(k, t) \<in> set TOOLS. canUseTool cfg b k = Valid) \<Longrightarrow> av \<noteq> []"
    using av_empty by blast
  show ?thesis
    using none av_empty chosen some unfolding b_def by blast
qed

theorem makeDecision_selects_usable_witness:
  "(0::rat) \<le> 1 / 2 \<and> (1::rat) / 2 < 1 \<and>
   (''strike'', strike_tool) \<in> set TOOLS \<and>
   canUseTool turnbased_cfg (bot_entity (getInitialState 0 0)) ''strike'' = Valid \<and>
   makeDecision turnbased_cfg (getInitialState 0 0) 0 0 (1 / 2) \<noteq> Inr None"
proof -
  have r: "(0::rat) \<le> 1 / 2" "(1::rat) / 2 < 1" by simp_all
  have m: "(''strike'', strike_tool) \<in> set TOOLS" by (simp add: TOOLS_def)
  have v: "canUseTool turnbased_cfg (bot_entity (getInitialState 0 0)) ''strike'' = Valid"
    by (simp add: canUseTool_def get_property_def Object_prototype_keys_def TOOLS_def
        strike_tool_def getInitialState_def new_entity_def turnbased_cfg_def Let_def)
  from makeDecision_selects_usable [OF r, of turnbased_cfg "getInitialState 0 0" 0 0] m v
  have "makeDecision turnbased_cfg (getInitialState 0 0) 0 0 (1 / 2) \<noteq> Inr None" by blast
  with r m v show ?thesis by blast
qed

section \<open>Dodge in turn-based mode (C10)\<close>

text \<open>
  C10: in turn-based mode, in every state that a sequence of engine operations reaches from
  the initial state, a \<^verbatim>\<open>useTool\<close> call returns with both dodge flags false, whether it
  succeeds or fails, and none of its effect results is a dodged hit.
\<close>

theorem turn_based_dodge_never_lasts:
  assumes "\<not> isRealTime cfg"
  shows "\<not> isDodging (player (snd (useTool cfg now inp isP
                 (run_ops cfg ops (getInitialState now1 now2))))) \<and>
         \<not> isDodging (bot_entity (snd (useTool cfg now inp isP
                 (run_ops cfg ops (getInitialState now1 now2))))) \<and>
         (\<forall>r \<in> set (result_effects (fst (useTool cfg now inp isP
                 (run_ops cfg ops (getInitialState now1 now2))))). dodged r \<noteq> Some True)"
proof -
  have "dodge_free (run_ops cfg ops (getInitialState now1 now2))"
    using assms getInitialState_dodge_free by (rule run_ops_dodge_free)
  with assms have
    "dodge_free (snd (useTool cfg now inp isP (run_ops cfg ops (getInitialState now1 now2)))) \<and>
     (\<forall>r \<in> set (result_effects (fst (useTool cfg now inp isP
                 (run_ops cfg ops (getInitialState now1 now2))))). dodged r \<noteq> Some True)"
    by (rule useTool_dodge_free)
  then show ?thesis by (simp add: dodge_free_def)
qed

theorem turn_based_dodge_never_lasts_witness:
  "\<not> isRealTime turnbased_dodge_cfg \<and>
   fst (useTool turnbased_dodge_cfg 0 ''Dodge'' True (run_ops turnbased_dodge_cfg [] (getInitialState 0 0)))
     = Success ''Dodge''
         [\<lparr>rtype = ''dodge'', rvalue = None, absorbed = None, final = None,
           dodged = None, rduration = Some 1\<rparr>]
         (Text ''Dodge used!'') \<and>
   \<not> isDodging (player (snd (useTool turnbased_dodge_cfg 0 ''Dodge'' True
          (run_ops turnbased_dodge_cfg [] (getInitialState 0 0)))))"
proof -
  have tb: "\<not> isRealTime turnbased_dodge_cfg"
    by (simp add: isRealTime_def turnbased_dodge_cfg_def)
  have r: "fst (useTool turnbased_dodge_cfg 0 ''Dodge'' True
                (run_ops turnbased_dodge_cfg [] (getInitialState 0 0)))
     = Success ''Dodge''
         [\<lparr>rtype = ''dodge'', rvalue = None, absorbed = None, final = None,
           dodged = None, rduration = Some 1\<rparr>]
         (Text ''Dodge used!'')"
    by (simp add: eval_defs findTool_dodge_literal turnbased_dodge_cfg_def)
  from turn_based_dodge_never_lasts [OF tb, where ops = "[]" and now = 0 and ?now1.0 = 0 and ?now2.0 = 0
      and inp = "''Dodge''" and isP = True]
  show ?thesis using tb r by blast
qed

end
